theory Spec2Isabelle
  imports Main "HOL-Library.Sublist"
begin

section \<open>Strings and the Go library functions the proxy calls\<close>

text \<open>
  A Go string is a sequence of bytes, here a \<^typ>\<open>string\<close> (a list of 8-bit characters).
  The functions of this section are those of Go's packages \<^verbatim>\<open>strings\<close> and
  \<^verbatim>\<open>path\<close> that \<^verbatim>\<open>cmd/podman-wsl-service/proxy.go\<close> calls, written after
  the library's own code.
\<close>

definition backslash :: char where
  "backslash = CHR 0x5C"

definition slash :: char where
  "slash = CHR ''/''"

definition dot :: char where
  "dot = CHR ''.''"

text \<open>\<^verbatim>\<open>strings.HasPrefix(s, prefix)\<close>.\<close>

definition HasPrefix :: "string \<Rightarrow> string \<Rightarrow> bool" where
  "HasPrefix s pre = prefix pre s"

text \<open>\<^verbatim>\<open>strings.TrimLeft(s, cutset)\<close>: every leading byte of the cutset is removed.\<close>

definition TrimLeft :: "string \<Rightarrow> string \<Rightarrow> string" where
  "TrimLeft s cutset = dropWhile (\<lambda>c. c \<in> set cutset) s"

text \<open>
  \<^verbatim>\<open>strings.Split(s, sep)\<close> for a one-byte separator: the pieces between the
  separators, at least one piece (the empty string splits into one empty piece).
\<close>

fun Split :: "string \<Rightarrow> char \<Rightarrow> string list" where
  "Split [] sep = [[]]"
| "Split (c # cs) sep =
     (if c = sep then [] # Split cs sep
      else (case Split cs sep of
              [] \<Rightarrow> [[c]]
            | p # ps \<Rightarrow> (c # p) # ps))"

text \<open>\<^verbatim>\<open>strings.Join(elems, sep)\<close> for a one-byte separator.\<close>

fun Join :: "string list \<Rightarrow> char \<Rightarrow> string" where
  "Join [] sep = []"
| "Join [p] sep = p"
| "Join (p # q # ps) sep = p @ sep # Join (q # ps) sep"

subsection \<open>\<^verbatim>\<open>path.Clean\<close> and \<^verbatim>\<open>path.Join\<close>\<close>

text \<open>
  \<^verbatim>\<open>path.Clean\<close> reads the path from index \<^verbatim>\<open>r\<close> and writes into a buffer
  \<^verbatim>\<open>out\<close>; \<^verbatim>\<open>dotdot\<close> is the buffer index below which a \<^verbatim>\<open>..\<close> element
  cannot backtrack. Here the unread part of the path is the list \<open>rest\<close>, and the buffer
  is the list \<open>out\<close> (its write index \<^verbatim>\<open>out.w\<close> is the length of \<open>out\<close>).
\<close>

definition end_or_slash :: "string \<Rightarrow> bool" where
  "end_or_slash t = (case t of [] \<Rightarrow> True | c # _ \<Rightarrow> c = slash)"

text \<open>
  The inner loop of a \<^verbatim>\<open>..\<close> element, after \<^verbatim>\<open>out.w--\<close>:
  \<^verbatim>\<open>for out.w > dotdot && out.index(out.w) != '/' { out.w-- }\<close>.
\<close>

function backtrack_w :: "string \<Rightarrow> nat \<Rightarrow> nat \<Rightarrow> nat" where
  "backtrack_w out dotdot w =
     (if dotdot < w \<and> w < length out \<and> out ! w \<noteq> slash
      then backtrack_w out dotdot (w - 1) else w)"
  by pat_completeness auto
termination
  by (relation "measure (\<lambda>(out, dotdot, w). w)") auto

declare backtrack_w.simps [simp del]

definition backtrack :: "string \<Rightarrow> nat \<Rightarrow> string" where
  "backtrack out dotdot = take (backtrack_w out dotdot (length out - 1)) out"

function Clean_loop :: "bool \<Rightarrow> string \<Rightarrow> string \<Rightarrow> nat \<Rightarrow> string" where
  "Clean_loop rooted [] out dotdot = out"
| "Clean_loop rooted (c # t) out dotdot =
     (if c = slash then
        \<comment> \<open>empty path element\<close>
        Clean_loop rooted t out dotdot
      else if c = dot \<and> end_or_slash t then
        \<comment> \<open>. element\<close>
        Clean_loop rooted t out dotdot
      else if c = dot \<and> (case t of [] \<Rightarrow> False | d # t2 \<Rightarrow> d = dot \<and> end_or_slash t2) then
        \<comment> \<open>.. element: remove to last /\<close>
        (if dotdot < length out then
           Clean_loop rooted (drop 1 t) (backtrack out dotdot) dotdot
         else if \<not> rooted then
           (let out' = (if out \<noteq> [] then out @ [slash] else out) @ [dot, dot]
            in Clean_loop rooted (drop 1 t) out' (length out'))
         else Clean_loop rooted (drop 1 t) out dotdot)
      else
        \<comment> \<open>real path element: add slash if needed, copy element\<close>
        (let out' = (if (rooted \<and> length out \<noteq> 1) \<or> (\<not> rooted \<and> length out \<noteq> 0)
                     then out @ [slash] else out)
         in Clean_loop rooted (dropWhile (\<lambda>x. x \<noteq> slash) t)
              (out' @ c # takeWhile (\<lambda>x. x \<noteq> slash) t) dotdot))"
  by pat_completeness auto
termination
  by (relation "measure (\<lambda>(rooted, rest, out, dotdot). length rest)")
     (auto simp: length_dropWhile_le less_Suc_eq_le)

definition Clean :: "string \<Rightarrow> string" where
  "Clean p =
     (case p of
        [] \<Rightarrow> ''.''
      | c # t \<Rightarrow>
          (let rooted = (c = slash);
               out = (if rooted then Clean_loop rooted t [slash] 1
                      else Clean_loop rooted p [] 0)
           in if out = [] then ''.'' else out))"

text \<open>
  \<^verbatim>\<open>path.Join(elem...)\<close>: empty elements are ignored, the others are joined with
  slashes and the result is cleaned; the join of nothing but empty elements is the empty
  string.
\<close>

fun join_buf :: "string \<Rightarrow> string list \<Rightarrow> string" where
  "join_buf buf [] = buf"
| "join_buf buf (e # es) =
     join_buf (if buf \<noteq> [] \<or> e \<noteq> []
               then (if buf \<noteq> [] then buf @ [slash] else buf) @ e
               else buf) es"

definition path_Join :: "string list \<Rightarrow> string" where
  "path_Join elem =
     (if sum_list (map length elem) = 0 then [] else Clean (join_buf [] elem))"

section \<open>The path translator\<close>

text \<open>
  Errors are values. \<open>ExecError\<close> is an error of the external \<^verbatim>\<open>wslpath\<close>
  command (\<^verbatim>\<open>pkg/wslpath/wslpath.go\<close>), \<open>BadPathFormat\<close> the error
  \<^verbatim>\<open>translateHostPath\<close> makes itself, with the host path its message quotes.
\<close>

datatype error =
    ExecError string
  | BadPathFormat string
  | ReadError string
  | CloseError string
  | DecodeError string
  | MarshalError string
  | IndexOutOfRange

record podmanProxy =
  sharedRoot :: string
  upstream :: string
  downstream :: string

definition NewPodmanProxy :: "string \<Rightarrow> string \<Rightarrow> string \<Rightarrow> podmanProxy" where
  "NewPodmanProxy root upstreamSocket downstreamSocket =
     \<lparr>sharedRoot = root, upstream = upstreamSocket, downstream = downstreamSocket\<rparr>"

text \<open>\<^verbatim>\<open>getSharedMountpoint\<close> of \<^verbatim>\<open>main.go\<close>: the shared root \<^verbatim>\<open>main\<close> gives the proxy.\<close>

definition getSharedMountpoint :: "string \<Rightarrow> string" where
  "getSharedMountpoint distroName = ''/mnt/wsl/distro-roots/'' @ distroName"

definition shared_mount_prefix :: string where
  "shared_mount_prefix = ''/mnt/wsl/''"

definition local_fs_prefix :: string where
  "local_fs_prefix = [backslash, backslash] @ ''wsl.localhost'' @ [backslash]"

text \<open>
  \<^verbatim>\<open>translateHostPath\<close>. The external collaborator \<^verbatim>\<open>wslpath.ToWindows\<close> runs
  a command; it is the parameter \<open>ToWindows\<close>, which returns the command's output or its
  error. Go's \<^verbatim>\<open>("", err)\<close> is \<open>Inl err\<close>.
\<close>

definition translateHostPath ::
  "(string \<Rightarrow> error + string) \<Rightarrow> podmanProxy \<Rightarrow> string \<Rightarrow> error + string" where
  "translateHostPath ToWindows p hostPath =
     (if HasPrefix hostPath shared_mount_prefix then Inr hostPath
      else
        (case ToWindows hostPath of
           Inl err \<Rightarrow> Inl err
         | Inr winPath \<Rightarrow>
             if HasPrefix winPath local_fs_prefix then
               (if \<not> HasPrefix hostPath ''/'' then Inl (BadPathFormat hostPath)
                else Inr (path_Join [sharedRoot p, TrimLeft hostPath ''/'']))
             else Inr winPath))"

section \<open>Request bodies and the two rewrites\<close>

text \<open>
  A value of Go's \<^verbatim>\<open>interface{}\<close>, by its dynamic type. A \<^verbatim>\<open>json.Decoder\<close> with
  \<^verbatim>\<open>UseNumber\<close> decodes into \<^verbatim>\<open>nil\<close>, \<^verbatim>\<open>bool\<close>, \<^verbatim>\<open>json.Number\<close>
  (the number's text), \<^verbatim>\<open>string\<close>, \<^verbatim>\<open>[]interface{}\<close> (\<open>GSlice\<close>) and
  \<^verbatim>\<open>map[string]interface{}\<close> (\<open>GMap\<close>), and into nothing else. \<open>GNilSlice\<close> is the
  nil slice of type \<^verbatim>\<open>[]interface{}\<close>, which \<^verbatim>\<open>mangleDockerVolumes\<close> stores when it
  has appended nothing, and \<open>GMapSlice\<close> a value of type \<^verbatim>\<open>[]map[string]string\<close>, the
  type \<^verbatim>\<open>mangleLibpodVolumes\<close> asserts.
\<close>

datatype gval =
    GNil
  | GBool bool
  | GNumber string
  | GString string
  | GSlice "gval list"
  | GNilSlice
  | GMap "string \<Rightarrow> gval option"
  | GMapSlice "(string \<Rightarrow> string option) list"

type_synonym gobject = "string \<Rightarrow> gval option"

text \<open>Reading a \<^verbatim>\<open>map[string]string\<close>: a missing key reads as the empty string.\<close>

definition map_index :: "(string \<Rightarrow> string option) \<Rightarrow> string \<Rightarrow> string" where
  "map_index m k = (case m k of None \<Rightarrow> [] | Some v \<Rightarrow> v)"

text \<open>
  The loop of \<^verbatim>\<open>mangleLibpodVolumes\<close>. Each \<^verbatim>\<open>mount\<close> is a map, which the loop
  updates in place, so the mounts before a failing one stay rewritten when the loop returns
  the error: the function returns the mounts as the loop leaves them, and the error if any.
\<close>

fun mangle_mounts ::
  "(string \<Rightarrow> error + string) \<Rightarrow> (string \<Rightarrow> string option) list
   \<Rightarrow> (string \<Rightarrow> string option) list \<times> error option" where
  "mangle_mounts tr [] = ([], None)"
| "mangle_mounts tr (mount # mounts) =
     (if map_index mount ''type'' \<noteq> ''bind'' then
        (case mangle_mounts tr mounts of (mounts', err) \<Rightarrow> (mount # mounts', err))
      else
        (case tr (map_index mount ''source'') of
           Inl err \<Rightarrow> (mount # mounts, Some err)
         | Inr newHostPath \<Rightarrow>
             (case mangle_mounts tr mounts of
                (mounts', err) \<Rightarrow> (mount(''source'' \<mapsto> newHostPath) # mounts', err))))"

text \<open>
  \<^verbatim>\<open>mangleLibpodVolumes\<close>: the body as the function leaves it, and the error it returns
  (\<open>None\<close> for \<^verbatim>\<open>nil\<close>). The type assertion
  \<^verbatim>\<open>body["mounts"].([]map[string]string)\<close> holds of a \<open>GMapSlice\<close> only.
\<close>

definition mangleLibpodVolumes ::
  "(string \<Rightarrow> error + string) \<Rightarrow> podmanProxy \<Rightarrow> gobject \<Rightarrow> gobject \<times> error option" where
  "mangleLibpodVolumes ToWindows p body =
     (case body ''mounts'' of
        Some (GMapSlice mounts) \<Rightarrow>
          (case mangle_mounts (translateHostPath ToWindows p) mounts of
             (mounts', err) \<Rightarrow> (body(''mounts'' \<mapsto> GMapSlice mounts'), err))
      | _ \<Rightarrow> (body, None))"

text \<open>
  The loop of \<^verbatim>\<open>mangleDockerVolumes\<close>, with the slice \<^verbatim>\<open>newBinds\<close> it appends to.
  \<^verbatim>\<open>strings.Split\<close> returns at least one part; were there none, \<^verbatim>\<open>parts[0]\<close>
  would panic.
\<close>

definition colon :: char where
  "colon = CHR '':''"

fun translate_binds ::
  "(string \<Rightarrow> error + string) \<Rightarrow> gval list \<Rightarrow> gval list \<Rightarrow> error + gval list" where
  "translate_binds tr [] newBinds = Inr newBinds"
| "translate_binds tr (bind # binds) newBinds =
     (case bind of
        GString s \<Rightarrow>
          (case Split s colon of
             [] \<Rightarrow> Inl IndexOutOfRange
           | hostPath # parts \<Rightarrow>
               (case tr hostPath of
                  Inl err \<Rightarrow> Inl err
                | Inr newHostPath \<Rightarrow>
                    translate_binds tr binds
                      (newBinds @ [GString (Join (newHostPath # parts) colon)])))
      | _ \<Rightarrow> translate_binds tr binds (newBinds @ [bind]))"

text \<open>
  The type assertion \<^verbatim>\<open>.([]interface{})\<close>, and the value of the variable
  \<^verbatim>\<open>newBinds\<close> (declared nil, so nil unless something was appended).
\<close>

definition as_slice :: "gval option \<Rightarrow> gval list option" where
  "as_slice v =
     (case v of
        Some (GSlice xs) \<Rightarrow> Some xs
      | Some GNilSlice \<Rightarrow> Some []
      | _ \<Rightarrow> None)"

definition slice_value :: "gval list \<Rightarrow> gval" where
  "slice_value xs = (if xs = [] then GNilSlice else GSlice xs)"

text \<open>
  \<^verbatim>\<open>mangleDockerVolumes\<close> of \<^verbatim>\<open>cmd/podman-wsl-service/proxy.go\<close>. The map
  \<^verbatim>\<open>hostConfig\<close> is the one the body holds, so the assignment to
  \<^verbatim>\<open>hostConfig["Binds"]\<close> changes the body; it is the last statement, so an error
  leaves the body as it was.
\<close>

definition mangleDockerVolumes ::
  "(string \<Rightarrow> error + string) \<Rightarrow> podmanProxy \<Rightarrow> gobject \<Rightarrow> gobject \<times> error option" where
  "mangleDockerVolumes ToWindows p body =
     (case body ''HostConfig'' of
        Some (GMap hostConfig) \<Rightarrow>
          (case as_slice (hostConfig ''Binds'') of
             None \<Rightarrow> (body, None)
           | Some binds \<Rightarrow>
               (case translate_binds (translateHostPath ToWindows p) binds [] of
                  Inl err \<Rightarrow> (body, Some err)
                | Inr newBinds \<Rightarrow>
                    (body(''HostConfig'' \<mapsto>
                       GMap (hostConfig(''Binds'' \<mapsto> slice_value newBinds))), None)))
      | _ \<Rightarrow> (body, None))"




section \<open>The JavaScript proxy: the libpod rewrite of \<^verbatim>\<open>index.mjs\<close>\<close>

text \<open>
  A value that \<^verbatim>\<open>JSON.parse\<close> returns. An object keeps its properties in the order
  they were added, so it is a list of pairs (with no key twice); a property read that finds
  nothing gives \<^verbatim>\<open>undefined\<close>, here \<open>None\<close>. Strings are compared bytewise,
  which is what \<^verbatim>\<open>startsWith\<close> and \<^verbatim>\<open>slice\<close> do on ASCII text.
\<close>

datatype jsval =
    JNull
  | JBool bool
  | JNumber string
  | JString string
  | JArray "jsval list"
  | JObject "(string \<times> jsval) list"

text \<open>
  What the JavaScript code throws: a \<^verbatim>\<open>TypeError\<close> of the language, the error of
  the child process \<^verbatim>\<open>wslpath\<close>, and the error \<^verbatim>\<open>translateHostPath\<close> makes
  itself.
\<close>

datatype jserror =
    TypeError
  | ChildProcessError string
  | BugError string

text \<open>
  Reading the property \<open>k\<close> (\<^verbatim>\<open>source\<close> or \<^verbatim>\<open>mounts\<close>, which no primitive
  value and no array has): \<^verbatim>\<open>null\<close> has no properties at all.
\<close>

definition js_get :: "jsval \<Rightarrow> string \<Rightarrow> jserror + jsval option" where
  "js_get v k =
     (case v of
        JNull \<Rightarrow> Inl TypeError
      | JObject props \<Rightarrow> Inr (map_of props k)
      | _ \<Rightarrow> Inr None)"

fun set_prop :: "(string \<times> jsval) list \<Rightarrow> string \<Rightarrow> jsval \<Rightarrow> (string \<times> jsval) list" where
  "set_prop [] k v = [(k, v)]"
| "set_prop ((k', v') # props) k v =
     (if k' = k then (k, v) # props else (k', v') # set_prop props k v)"

definition js_set :: "jsval \<Rightarrow> string \<Rightarrow> jsval \<Rightarrow> jsval" where
  "js_set obj k v = (case obj of JObject props \<Rightarrow> JObject (set_prop props k v) | _ \<Rightarrow> obj)"

text \<open>
  \<^verbatim>\<open>translateHostPath\<close> of \<^verbatim>\<open>index.mjs\<close>. Its argument is whatever the property
  read gave; \<^verbatim>\<open>hostPath.startsWith\<close> throws unless it is a string. The parameters
  are the external \<^verbatim>\<open>wslPathToWindowsPath\<close> and Node's \<^verbatim>\<open>path.join\<close>.
\<close>

definition js_translateHostPath ::
  "(string \<Rightarrow> jserror + string) \<Rightarrow> (string \<Rightarrow> string \<Rightarrow> string) \<Rightarrow> string
   \<Rightarrow> jsval option \<Rightarrow> jserror + string" where
  "js_translateHostPath wslPathToWindowsPath pathJoin root hostPath =
     (case hostPath of
        Some (JString h) \<Rightarrow>
          if prefix ''/mnt/wsl/'' h then Inr h
          else
            (case wslPathToWindowsPath h of
               Inl err \<Rightarrow> Inl err
             | Inr winPath \<Rightarrow>
                 if prefix local_fs_prefix winPath then
                   (if \<not> prefix ''/'' h then Inl (BugError h)
                    else Inr (pathJoin root (drop 1 h)))
                 else Inr winPath)
      | _ \<Rightarrow> Inl TypeError)"

text \<open>
  The loop of \<^verbatim>\<open>patchVolumesLibpod\<close>: for every mount, whatever its type, the source
  is read, translated and stored. An exception ends the loop (the caller answers 500).
\<close>

fun patch_mounts ::
  "(jsval option \<Rightarrow> jserror + string) \<Rightarrow> jsval list \<Rightarrow> jserror + jsval list" where
  "patch_mounts tr [] = Inr []"
| "patch_mounts tr (mount # mounts) =
     (case js_get mount ''source'' of
        Inl err \<Rightarrow> Inl err
      | Inr hostPath \<Rightarrow>
          (case tr hostPath of
             Inl err \<Rightarrow> Inl err
           | Inr newHostPath \<Rightarrow>
               (case patch_mounts tr mounts of
                  Inl err \<Rightarrow> Inl err
                | Inr mounts' \<Rightarrow> Inr (js_set mount ''source'' (JString newHostPath) # mounts'))))"

definition patchVolumesLibpod ::
  "(jsval option \<Rightarrow> jserror + string) \<Rightarrow> jsval \<Rightarrow> jserror + jsval" where
  "patchVolumesLibpod tr body =
     (case js_get body ''mounts'' of
        Inl err \<Rightarrow> Inl err
      | Inr (Some (JArray mounts)) \<Rightarrow>
          (case patch_mounts tr mounts of
             Inl err \<Rightarrow> Inl err
           | Inr mounts' \<Rightarrow> Inr (js_set body ''mounts'' (JArray mounts')))
      | Inr _ \<Rightarrow> Inr body)"

section \<open>Startup: the probe of the upstream socket\<close>

text \<open>
  \<^verbatim>\<open>p.client.Get("http://d/_ping")\<close> returns an error or a response; of the response
  the function reads the status code and closes the body.
\<close>

record probe_response =
  StatusCode :: nat
  BodyClose :: "error option"

definition StatusOK :: nat where
  "StatusOK = 200"

text \<open>
  \<^verbatim>\<open>TestUpstreamSocket\<close>. Past the first test the variable \<^verbatim>\<open>err\<close> is
  \<^verbatim>\<open>nil\<close>, and it is that variable the second \<^verbatim>\<open>return err\<close> returns.
\<close>

definition TestUpstreamSocket :: "error + probe_response \<Rightarrow> error option" where
  "TestUpstreamSocket get =
     (case get of
        Inl err \<Rightarrow> Some err
      | Inr resp \<Rightarrow>
          (let err = None
           in if StatusCode resp \<noteq> StatusOK then err
              else (case BodyClose resp of Some err' \<Rightarrow> Some err' | None \<Rightarrow> None)))"

text \<open>
  The end of \<^verbatim>\<open>main\<close>: \<^verbatim>\<open>log.Fatalf\<close> on an error of the probe, else
  \<^verbatim>\<open>proxy.Serve()\<close>.
\<close>

datatype startup = FatalExit error | Serve

definition main_startup :: "error + probe_response \<Rightarrow> startup" where
  "main_startup get =
     (case TestUpstreamSocket get of Some err \<Rightarrow> FatalExit err | None \<Rightarrow> Serve)"

section \<open>The raw byte forwarder\<close>

text \<open>
  An error of a read, a write or \<^verbatim>\<open>select\<close>: an error number of the system,
  \<^verbatim>\<open>io.EOF\<close>, or another error of the network layer. On Linux \<^verbatim>\<open>EAGAIN\<close> and
  \<^verbatim>\<open>EWOULDBLOCK\<close> are the same number.
\<close>

datatype io_error = Errno nat | EOF | NetError string

definition EAGAIN :: io_error where
  "EAGAIN = Errno 11"

definition EWOULDBLOCK :: io_error where
  "EWOULDBLOCK = Errno 11"

definition would_block :: "io_error \<Rightarrow> bool" where
  "would_block err = (err = EAGAIN \<or> err = EWOULDBLOCK)"

text \<open>
  What one call of \<^verbatim>\<open>forwardData\<close> meets: whether \<^verbatim>\<open>select\<close> flagged the
  descriptor, the result of \<^verbatim>\<open>src.Read\<close> (an error, or the number of bytes read) and
  the result of \<^verbatim>\<open>dst.Write\<close> should it be called.
\<close>

record side =
  is_set :: bool
  read_result :: "io_error + nat"
  write_result :: "io_error option"

definition forwardData :: "side \<Rightarrow> io_error option" where
  "forwardData s =
     (if is_set s then
        (case read_result s of
           Inl err \<Rightarrow> if would_block err then None else Some err
         | Inr n \<Rightarrow>
             if 0 < n then (case write_result s of Some err \<Rightarrow> Some err | None \<Rightarrow> None)
             else None)
      else None)"

text \<open>
  One turn of the loop of \<^verbatim>\<open>ProxyFileConn\<close>: the result of \<^verbatim>\<open>unix.Select\<close>, then
  the two calls of \<^verbatim>\<open>forwardData\<close>. The loop has no exit but \<^verbatim>\<open>return err\<close>; run
  over the turns the environment has offered so far it has either returned an error or is
  still running.
\<close>

record turn =
  select_result :: "io_error option"
  side1 :: side
  side2 :: side

datatype forwarding = Running | Returned io_error

fun forward_loop :: "turn list \<Rightarrow> forwarding" where
  "forward_loop [] = Running"
| "forward_loop (t # ts) =
     (case select_result t of
        Some err \<Rightarrow> Returned err
      | None \<Rightarrow>
          (case forwardData (side1 t) of
             Some err \<Rightarrow> Returned err
           | None \<Rightarrow>
               (case forwardData (side2 t) of
                  Some err \<Rightarrow> Returned err
                | None \<Rightarrow> forward_loop ts)))"

text \<open>
  \<^verbatim>\<open>ProxyFileConn\<close>: the four preparations (the two descriptors, the two switches to
  non-blocking mode), each of which may fail, then the loop.
\<close>

record preparation =
  getConnFd1 :: "io_error option"
  getConnFd2 :: "io_error option"
  setNonBlocking1 :: "io_error option"
  setNonBlocking2 :: "io_error option"

definition ProxyFileConn :: "preparation \<Rightarrow> turn list \<Rightarrow> forwarding" where
  "ProxyFileConn prep turns =
     (case getConnFd1 prep of
        Some err \<Rightarrow> Returned err
      | None \<Rightarrow>
          (case getConnFd2 prep of
             Some err \<Rightarrow> Returned err
           | None \<Rightarrow>
               (case setNonBlocking1 prep of
                  Some err \<Rightarrow> Returned err
                | None \<Rightarrow>
                    (case setNonBlocking2 prep of
                       Some err \<Rightarrow> Returned err
                     | None \<Rightarrow> forward_loop turns))))"

section \<open>The JavaScript proxy: connections and the shutdown timer\<close>










section \<open>The HTTP handler\<close>

subsection \<open>The version prefix\<close>

text \<open>
  The regular expression \<^verbatim>\<open>^/v\d+.(?:\d\.?)+/\<close> of \<^verbatim>\<open>NewPodmanProxy\<close>, matched
  as Go's \<^verbatim>\<open>regexp\<close> matches it: the first match a backtracking search finds, the
  digits of \<^verbatim>\<open>\d+\<close> as many as possible first, and \<^verbatim>\<open>.\<close> one character of the
  UTF-8 text (any but the newline; a byte that starts no valid encoding counts as one
  character).
\<close>

definition is_digit :: "char \<Rightarrow> bool" where
  "is_digit c = (48 \<le> (of_char c :: nat) \<and> (of_char c :: nat) \<le> 57)"

definition continuation :: "nat \<Rightarrow> bool" where
  "continuation b = (128 \<le> b \<and> b \<le> 191)"

text \<open>The number of bytes of the first character, as \<^verbatim>\<open>utf8.DecodeRuneInString\<close> finds it.\<close>

definition rune_width :: "string \<Rightarrow> nat" where
  "rune_width s =
     (case map of_char s of
        [] \<Rightarrow> 0
      | b0 # bs \<Rightarrow>
          (let sz = (if 194 \<le> b0 \<and> b0 \<le> 223 then 2
                     else if 224 \<le> b0 \<and> b0 \<le> 239 then 3
                     else if 240 \<le> b0 \<and> b0 \<le> 244 then 4
                     else (1::nat));
               lo = (if b0 = 224 then 160 else if b0 = 240 then 144 else (128::nat));
               hi = (if b0 = 237 then 159 else if b0 = 244 then 143 else (191::nat))
           in if sz = 1 then 1
              else if length s < sz then 1
              else if \<not> (lo \<le> bs ! 0 \<and> bs ! 0 \<le> hi) then 1
              else if sz \<le> 2 then 2
              else if \<not> continuation (bs ! 1) then 1
              else if sz \<le> 3 then 3
              else if \<not> continuation (bs ! 2) then 1
              else 4))"

text \<open>
  \<^verbatim>\<open>(?:\d\.?)+/\<close>: what is left of the text behind the match, if it matches at the
  start of the text.
\<close>

fun match_group :: "string \<Rightarrow> string option" where
  "match_group [] = None"
| "match_group (d # rest) =
     (if \<not> is_digit d then None
      else
        (case rest of
           [] \<Rightarrow> None
         | c # r \<Rightarrow>
             if c = slash then Some r
             else if c = dot then
               (case r of
                  [] \<Rightarrow> None
                | c2 # r2 \<Rightarrow> if c2 = slash then Some r2 else match_group r)
             else match_group rest))"

definition any_char_then_group :: "string \<Rightarrow> string option" where
  "any_char_then_group t =
     (case t of
        [] \<Rightarrow> None
      | c # _ \<Rightarrow> if c = CHR 0x0A then None else match_group (drop (rune_width t) t))"

fun try_digits :: "nat \<Rightarrow> string \<Rightarrow> string option" where
  "try_digits 0 s = None"
| "try_digits (Suc k) s =
     (case any_char_then_group (drop (Suc k) s) of
        Some r \<Rightarrow> Some r
      | None \<Rightarrow> try_digits k s)"

definition versionRegex_match :: "string \<Rightarrow> string option" where
  "versionRegex_match p =
     (case p of
        c0 # c1 # s \<Rightarrow>
          if c0 = slash \<and> c1 = CHR ''v'' then try_digits (length (takeWhile is_digit s)) s
          else None
      | _ \<Rightarrow> None)"

text \<open>\<^verbatim>\<open>p.versionRegex.MatchString\<close> and \<^verbatim>\<open>p.versionRegex.ReplaceAllString\<close>.\<close>

definition MatchString :: "string \<Rightarrow> bool" where
  "MatchString p = (versionRegex_match p \<noteq> None)"

definition ReplaceAllString :: "string \<Rightarrow> string \<Rightarrow> string" where
  "ReplaceAllString p repl =
     (case versionRegex_match p of None \<Rightarrow> p | Some rest \<Rightarrow> repl @ rest)"

subsection \<open>\<^verbatim>\<open>ServeHTTP\<close>\<close>

text \<open>
  The request as the handler reads it: the method, the path of the URL, the headers (a map
  from canonical names to their values), the result of reading the whole body and of
  closing it, and the content length. What the handler does with it: it hands a request to
  \<^verbatim>\<open>forwardRequest\<close>, or answers with \<^verbatim>\<open>http.Error\<close>.
\<close>

record request =
  Method :: string
  URL_Path :: string
  Header :: "string \<Rightarrow> string list option"
  Body_ReadAll :: "error + string"
  Body_Close :: "error option"
  ContentLength :: int

datatype served = Forwarded request | HttpError nat error

definition StatusBadRequest :: nat where
  "StatusBadRequest = 400"

definition StatusInternalServerError :: nat where
  "StatusInternalServerError = 500"

text \<open>\<^verbatim>\<open>Header.Get\<close> and \<^verbatim>\<open>Header.Set\<close>.\<close>

definition Header_Get :: "(string \<Rightarrow> string list option) \<Rightarrow> string \<Rightarrow> string" where
  "Header_Get h k = (case h k of Some (v # _) \<Rightarrow> v | _ \<Rightarrow> [])"

definition Header_Set ::
  "(string \<Rightarrow> string list option) \<Rightarrow> string \<Rightarrow> string \<Rightarrow> (string \<Rightarrow> string list option)" where
  "Header_Set h k v = h(k \<mapsto> [v])"

text \<open>\<^verbatim>\<open>strconv.FormatInt(n, 10)\<close> of a length.\<close>

fun FormatInt :: "nat \<Rightarrow> string" where
  "FormatInt n =
     (if n < 10 then [char_of (48 + n)]
      else FormatInt (n div 10) @ [char_of (48 + n mod 10)])"

declare FormatInt.simps [simp del]

text \<open>
  The handler past the content-type guard: the body is read, closed, decoded, rewritten,
  encoded, and the request forwarded with the new body. The decoder and the encoder of
  \<^verbatim>\<open>encoding/json\<close> are parameters.
\<close>

definition intercept ::
  "(string \<Rightarrow> error + gobject) \<Rightarrow> (gobject \<Rightarrow> error + string) \<Rightarrow> (string \<Rightarrow> error + string)
   \<Rightarrow> podmanProxy \<Rightarrow> string \<Rightarrow> request \<Rightarrow> served" where
  "intercept Decode Marshal ToWindows p path r =
     (case Body_ReadAll r of
        Inl err \<Rightarrow> HttpError StatusInternalServerError err
      | Inr body \<Rightarrow>
          (case Body_Close r of
             Some err \<Rightarrow> HttpError StatusInternalServerError err
           | None \<Rightarrow>
               (case Decode body of
                  Inl err \<Rightarrow> HttpError StatusBadRequest err
                | Inr bodyObj \<Rightarrow>
                    (case (if HasPrefix path ''/libpod''
                           then mangleLibpodVolumes ToWindows p bodyObj
                           else mangleDockerVolumes ToWindows p bodyObj) of
                       (bodyObj', Some err) \<Rightarrow> HttpError StatusBadRequest err
                     | (bodyObj', None) \<Rightarrow>
                         (case Marshal bodyObj' of
                            Inl err \<Rightarrow> HttpError StatusInternalServerError err
                          | Inr newBody \<Rightarrow>
                              Forwarded
                                (r\<lparr>Body_ReadAll := Inr newBody,
                                   Body_Close := None,
                                   ContentLength := int (length newBody),
                                   Header := Header_Set (Header r) ''Content-Length''
                                               (FormatInt (length newBody))\<rparr>))))))"

definition ServeHTTP ::
  "(string \<Rightarrow> error + gobject) \<Rightarrow> (gobject \<Rightarrow> error + string) \<Rightarrow> (string \<Rightarrow> error + string)
   \<Rightarrow> podmanProxy \<Rightarrow> request \<Rightarrow> served" where
  "ServeHTTP Decode Marshal ToWindows p r =
     (let path = (if MatchString (URL_Path r) then ReplaceAllString (URL_Path r) ''/''
                  else URL_Path r);
          contentType = Header_Get (Header r) ''Content-Type''
      in if Method r \<noteq> ''POST''
            \<or> (path \<noteq> ''/containers/create'' \<and> path \<noteq> ''/libpod/containers/create'')
         then Forwarded r
         else if contentType \<noteq> ''application/json'' \<and> contentType \<noteq> []
         then Forwarded r
         else intercept Decode Marshal ToWindows p path r)"

section \<open>Auxiliary definitions for the statements\<close>

text \<open>A run of \<^verbatim>\<open>ProxyFileConn\<close> in which the four preparations succeed.\<close>

definition prepared :: preparation where
  "prepared = \<lparr>getConnFd1 = None, getConnFd2 = None,
               setNonBlocking1 = None, setNonBlocking2 = None\<rparr>"

text \<open>
  A turn of the loop in which \<^verbatim>\<open>select\<close> succeeds and flags the first descriptor
  only, with the given results of the read and of the write.
\<close>

definition example_turn :: "io_error + nat \<Rightarrow> io_error option \<Rightarrow> turn" where
  "example_turn rd wr =
     \<lparr>select_result = None,
      side1 = \<lparr>is_set = True, read_result = rd, write_result = wr\<rparr>,
      side2 = \<lparr>is_set = False, read_result = Inr 0, write_result = None\<rparr>\<rparr>"


section \<open>Properties of the path translator\<close>

lemma end_or_slash_append:
  "end_or_slash X \<Longrightarrow> end_or_slash (a @ X) = end_or_slash a"
  by (cases a) (auto simp: end_or_slash_def)

lemma takeWhile_before_tail:
  "end_or_slash X \<Longrightarrow>
   takeWhile (\<lambda>x. x \<noteq> slash) (a @ X) = takeWhile (\<lambda>x. x \<noteq> slash) a"
  by (induction a) (auto simp: end_or_slash_def split: list.splits)

lemma dropWhile_before_tail:
  "end_or_slash X \<Longrightarrow>
   dropWhile (\<lambda>x. x \<noteq> slash) (a @ X) = dropWhile (\<lambda>x. x \<noteq> slash) a @ X"
  by (induction a) (auto simp: end_or_slash_def split: list.splits)

lemma dotdot_test_append:
  "end_or_slash X \<Longrightarrow>
   (case a @ X of [] \<Rightarrow> False | d # t2 \<Rightarrow> d = dot \<and> end_or_slash t2)
   = (case a of [] \<Rightarrow> False | d # t2 \<Rightarrow> d = dot \<and> end_or_slash t2)"
  by (cases a) (auto simp: end_or_slash_append, auto simp: end_or_slash_def dot_def slash_def split: list.splits)

lemma Clean_loop_tail_cong:
  assumes X: "end_or_slash X" and Y: "end_or_slash Y"
    and XY: "\<And>r out dd. Clean_loop r X out dd = Clean_loop r Y out dd"
  shows "Clean_loop r (a @ X) out dd = Clean_loop r (a @ Y) out dd"
proof (induction a arbitrary: r out dd rule: length_induct)
  case (1 a)
  show ?case
  proof (cases a)
    case Nil
    then show ?thesis by (simp add: XY)
  next
    case (Cons c a')
    have IH: "\<And>b r out dd. length b \<le> length a' \<Longrightarrow>
        Clean_loop r (b @ X) out dd = Clean_loop r (b @ Y) out dd"
      using 1 Cons by simp
    have ih0: "\<And>r out dd. Clean_loop r (a' @ X) out dd = Clean_loop r (a' @ Y) out dd"
      by (rule IH) simp
    have ih1: "\<And>r out dd. Clean_loop r (drop (Suc 0) a' @ X) out dd
        = Clean_loop r (drop (Suc 0) a' @ Y) out dd"
      by (rule IH) simp
    have ih2: "\<And>r out dd. Clean_loop r (dropWhile (\<lambda>x. x \<noteq> slash) a' @ X) out dd
        = Clean_loop r (dropWhile (\<lambda>x. x \<noteq> slash) a' @ Y) out dd"
      by (rule IH) (rule length_dropWhile_le)
    have dr: "\<And>Z. a' \<noteq> [] \<Longrightarrow> drop (Suc 0) (a' @ Z) = drop (Suc 0) a' @ Z"
      by (cases a') auto
    have nd: "\<And>Z. end_or_slash Z \<Longrightarrow> a' = [] \<Longrightarrow>
       \<not> (case a' @ Z of [] \<Rightarrow> False | d # t2 \<Rightarrow> d = dot \<and> end_or_slash t2)"
      by (auto simp: end_or_slash_def dot_def slash_def split: list.splits)
    show ?thesis
      using X Y
      by (cases "a' = []")
         (simp_all add: Cons end_or_slash_append dotdot_test_append takeWhile_before_tail dropWhile_before_tail dr Let_def ih0 ih1 ih2
            takeWhile_before_tail [of _ "[]", simplified] dropWhile_before_tail [of _ "[]", simplified] XY
            del: drop_append)
  qed
qed


lemma Clean_loop_skip_slashes:
  "Clean_loop r (replicate k slash @ t) out dd = Clean_loop r t out dd"
  by (induction k) simp_all

lemma Clean_loop_extra_slashes:
  "Clean_loop r (a @ slash # replicate k slash @ s) out dd = Clean_loop r (a @ slash # s) out dd"
proof (rule Clean_loop_tail_cong)
  show "end_or_slash (slash # replicate k slash @ s)" by (simp add: end_or_slash_def)
  show "end_or_slash (slash # s)" by (simp add: end_or_slash_def)
  show "Clean_loop r' (slash # replicate k slash @ s) out' dd' = Clean_loop r' (slash # s) out' dd'"
    for r' out' dd'
    by (simp add: Clean_loop_skip_slashes)
qed

lemma Clean_extra_slashes:
  assumes "a \<noteq> []"
  shows "Clean (a @ slash # replicate k slash @ s) = Clean (a @ slash # s)"
proof -
  obtain c a' where a: "a = c # a'" using assms by (cases a) auto
  have "Clean_loop r ((c # a') @ slash # replicate k slash @ s) out dd
      = Clean_loop r ((c # a') @ slash # s) out dd" for r out dd
    by (rule Clean_loop_extra_slashes)
  then show ?thesis
    using Clean_loop_extra_slashes [of _ a' k s]
    by (simp add: Clean_def a Let_def del: Clean_loop.simps)
qed

lemma path_Join_pair:
  "root \<noteq> [] \<Longrightarrow> path_Join [root, x] = Clean (root @ slash # x)"
  by (simp add: path_Join_def)

lemma TrimLeft_slashes:
  "\<exists>k. h = replicate k slash @ TrimLeft h ''/''"
proof (induction h)
  case Nil
  show ?case by (simp add: TrimLeft_def)
next
  case (Cons c h)
  then obtain k where k: "h = replicate k slash @ TrimLeft h ''/''" by blast
  show ?case
  proof (cases "c = slash")
    case True
    have "c # h = replicate (Suc k) slash @ TrimLeft (c # h) ''/''"
      using k True by (simp add: TrimLeft_def slash_def)
    then show ?thesis by blast
  next
    case False
    have "c # h = replicate 0 slash @ TrimLeft (c # h) ''/''"
      using False by (simp add: TrimLeft_def slash_def)
    then show ?thesis by blast
  qed
qed

lemma path_Join_TrimLeft:
  assumes "root \<noteq> []" and "prefix ''/'' hostPath"
  shows "path_Join [root, TrimLeft hostPath ''/''] = path_Join [root, drop 1 hostPath]"
proof -
  obtain h where h: "hostPath = slash # h"
    using assms(2) by (cases hostPath) (auto simp: slash_def)
  obtain k where k: "h = replicate k slash @ TrimLeft h ''/''"
    using TrimLeft_slashes by blast
  have t: "TrimLeft hostPath ''/'' = TrimLeft h ''/''"
    by (simp add: h TrimLeft_def slash_def)
  have "Clean (root @ slash # h) = Clean (root @ slash # TrimLeft h ''/'')"
    using Clean_extra_slashes [OF assms(1), of k "TrimLeft h ''/''"] k by simp
  then show ?thesis
    unfolding path_Join_pair [OF assms(1)] t by (simp add: h)
qed

lemma main_shared_root_prefix:
  "prefix shared_mount_prefix (sharedRoot (NewPodmanProxy (getSharedMountpoint d) u ds))"
  by (simp add: NewPodmanProxy_def getSharedMountpoint_def shared_mount_prefix_def)

text \<open>
  Claim C6. A path that already begins with the shared prefix is returned unchanged,
  with no error, whatever the external path conversion would answer. The test of the code
  is on the prefix \<^verbatim>\<open>/mnt/wsl/\<close>; the shared root that \<^verbatim>\<open>main\<close> configures
  (\<^verbatim>\<open>/mnt/wsl/distro-roots/\<close> followed by the distribution's name) begins with it, so
  the same holds of every path that begins with the proxy's shared root.
\<close>

theorem translateHostPath_already_shared:
  assumes "prefix shared_mount_prefix hostPath
           \<or> prefix (sharedRoot (NewPodmanProxy (getSharedMountpoint d) u ds)) hostPath"
  shows "translateHostPath ToWindows (NewPodmanProxy (getSharedMountpoint d) u ds) hostPath
         = Inr hostPath"
proof -
  have "prefix shared_mount_prefix hostPath"
    using assms main_shared_root_prefix [of d u ds] by (auto intro: prefix_order.trans)
  then show ?thesis
    by (simp add: translateHostPath_def HasPrefix_def)
qed

theorem translateHostPath_already_shared_witness:
  "translateHostPath (\<lambda>_. Inl (ExecError ''wslpath''))
     (NewPodmanProxy (getSharedMountpoint ''Ubuntu'') ''up.sock'' ''down.sock'')
     ''/mnt/wsl/distro-roots/Ubuntu/home/user/data''
   = Inr ''/mnt/wsl/distro-roots/Ubuntu/home/user/data''"
  using translateHostPath_already_shared
    [of "''/mnt/wsl/distro-roots/Ubuntu/home/user/data''" "''Ubuntu''" "''up.sock''" "''down.sock''"
        "\<lambda>_. Inl (ExecError ''wslpath'')"]
  by (simp add: shared_mount_prefix_def)


text \<open>
  Claim C2. For a host path that does not begin with \<^verbatim>\<open>/mnt/wsl/\<close> the translator
  calls the external conversion on it. If the conversion fails, so does the translator, with
  the same error. If the converted path begins with the local-filesystem prefix
  (\<open>local_fs_prefix\<close>), a host path that is not absolute gives the error
  \<open>BadPathFormat\<close>, and an absolute one gives \<^verbatim>\<open>path.Join\<close> of the shared root
  and the host path without its first slash (the code strips every leading slash; after
  \<^verbatim>\<open>path.Join\<close> behind a shared root that is not empty the result is the same).
  Any other converted path is returned as it is.
\<close>

theorem translateHostPath_not_shared:
  assumes "\<not> prefix shared_mount_prefix hostPath"
  shows "translateHostPath ToWindows (NewPodmanProxy (getSharedMountpoint d) u ds) hostPath =
     (case ToWindows hostPath of
        Inl err \<Rightarrow> Inl err
      | Inr winPath \<Rightarrow>
          if prefix local_fs_prefix winPath then
            (if \<not> prefix ''/'' hostPath then Inl (BadPathFormat hostPath)
             else Inr (path_Join [getSharedMountpoint d, drop 1 hostPath]))
          else Inr winPath)"
proof -
  have root: "getSharedMountpoint d \<noteq> []"
    by (simp add: getSharedMountpoint_def)
  have "prefix ''/'' hostPath \<Longrightarrow>
      path_Join [getSharedMountpoint d, TrimLeft hostPath ''/'']
      = path_Join [getSharedMountpoint d, drop 1 hostPath]"
    by (rule path_Join_TrimLeft [OF root])
  then show ?thesis
    using assms
    by (simp add: translateHostPath_def HasPrefix_def NewPodmanProxy_def split: sum.splits)
qed

theorem translateHostPath_not_shared_witness:
  "translateHostPath (\<lambda>p. Inr (local_fs_prefix @ ''Ubuntu''))
     (NewPodmanProxy (getSharedMountpoint ''Ubuntu'') ''up.sock'' ''down.sock'')
     ''//home/user/data''
   = Inr ''/mnt/wsl/distro-roots/Ubuntu/home/user/data''"
  using translateHostPath_not_shared
    [of "''//home/user/data''" "\<lambda>p. Inr (local_fs_prefix @ ''Ubuntu'')" "''Ubuntu''"
        "''up.sock''" "''down.sock''"]
  by (simp add: shared_mount_prefix_def getSharedMountpoint_def path_Join_def Clean_def
        slash_def dot_def end_or_slash_def)


section \<open>Properties of the body rewrites\<close>












lemmas eval_defs = shared_mount_prefix_def getSharedMountpoint_def path_Join_def Clean_def
        slash_def dot_def end_or_slash_def translateHostPath_def HasPrefix_def
        NewPodmanProxy_def local_fs_prefix_def backslash_def TrimLeft_def





text \<open>
  Claim C5. When the body has no \<^verbatim>\<open>HostConfig\<close> field, or has one that is an object
  without a \<^verbatim>\<open>Binds\<close> field, the Docker rewrite returns no error and the body is
  unchanged.
\<close>

theorem mangleDockerVolumes_missing:
  assumes "body ''HostConfig'' = None
           \<or> (\<exists>hostConfig. body ''HostConfig'' = Some (GMap hostConfig)
                  \<and> hostConfig ''Binds'' = None)"
  shows "mangleDockerVolumes ToWindows p body = (body, None)"
  using assms by (auto simp: mangleDockerVolumes_def as_slice_def)

theorem mangleDockerVolumes_missing_witness:
  "mangleDockerVolumes (\<lambda>p. Inl (ExecError ''wslpath''))
     (NewPodmanProxy (getSharedMountpoint ''Ubuntu'') ''up.sock'' ''down.sock'')
     [''Image'' \<mapsto> GString ''alpine'']
   = ([''Image'' \<mapsto> GString ''alpine''], None)
   \<and> mangleDockerVolumes (\<lambda>p. Inl (ExecError ''wslpath''))
     (NewPodmanProxy (getSharedMountpoint ''Ubuntu'') ''up.sock'' ''down.sock'')
     [''HostConfig'' \<mapsto> GMap [''NetworkMode'' \<mapsto> GString ''host'']]
   = ([''HostConfig'' \<mapsto> GMap [''NetworkMode'' \<mapsto> GString ''host'']], None)"
  using mangleDockerVolumes_missing
    [of "[''Image'' \<mapsto> GString ''alpine'']" "\<lambda>p. Inl (ExecError ''wslpath'')"
        "NewPodmanProxy (getSharedMountpoint ''Ubuntu'') ''up.sock'' ''down.sock''"]
    mangleDockerVolumes_missing
    [of "[''HostConfig'' \<mapsto> GMap [''NetworkMode'' \<mapsto> GString ''host'']]"
        "\<lambda>p. Inl (ExecError ''wslpath'')"
        "NewPodmanProxy (getSharedMountpoint ''Ubuntu'') ''up.sock'' ''down.sock''"]
  by simp

text \<open>
  The libpod rewrite. A JSON array is decoded as a \<^verbatim>\<open>[]interface{}\<close>, never as a
  \<^verbatim>\<open>[]map[string]string\<close>, so on a decoded body the type assertion of
  \<^verbatim>\<open>mangleLibpodVolumes\<close> fails and the function returns at once.
\<close>

lemma mangleLibpodVolumes_decoded:
  "body ''mounts'' = Some (GSlice ms) \<Longrightarrow> mangleLibpodVolumes ToWindows p body = (body, None)"
  by (simp add: mangleLibpodVolumes_def)



text \<open>
  On a \<^verbatim>\<open>[]map[string]string\<close> the loop keeps the number of mounts, leaves every mount
  whose type is not \<^verbatim>\<open>bind\<close> as it was, and stores the translation as the source of
  the others until the translator fails.
\<close>

lemma mangle_mounts_length:
  "mangle_mounts tr ms = (ms', e) \<Longrightarrow> length ms' = length ms"
  by (induction ms arbitrary: ms' e) (auto split: if_splits prod.splits sum.splits)

lemma mangle_mounts_other_types:
  "mangle_mounts tr ms = (ms', e) \<Longrightarrow> i < length ms \<Longrightarrow>
   map_index (ms ! i) ''type'' \<noteq> ''bind'' \<Longrightarrow> ms' ! i = ms ! i"
proof (induction ms arbitrary: ms' e i)
  case Nil
  then show ?case by simp
next
  case (Cons m ms)
  show ?case
  proof (cases i)
    case 0
    then show ?thesis
      using Cons.prems by (auto split: if_splits prod.splits sum.splits)
  next
    case (Suc j)
    then show ?thesis
      using Cons.prems Cons.IH [of _ _ j]
      by (auto split: if_splits prod.splits sum.splits)
  qed
qed

lemma mangleLibpodVolumes_other_types:
  assumes "body ''mounts'' = Some (GMapSlice ms)"
    and "i < length ms" and "map_index (ms ! i) ''type'' \<noteq> ''bind''"
  shows "\<exists>ms'. fst (mangleLibpodVolumes ToWindows p body) ''mounts'' = Some (GMapSlice ms')
           \<and> length ms' = length ms \<and> ms' ! i = ms ! i"
proof -
  obtain ms' e where r: "mangle_mounts (translateHostPath ToWindows p) ms = (ms', e)"
    by (cases "mangle_mounts (translateHostPath ToWindows p) ms") auto
  have "fst (mangleLibpodVolumes ToWindows p body) ''mounts'' = Some (GMapSlice ms')"
    by (simp add: mangleLibpodVolumes_def assms(1) r)
  then show ?thesis
    using mangle_mounts_length [OF r] mangle_mounts_other_types [OF r assms(2,3)] by blast
qed

text \<open>
  Claim C1 on the code. The body \<^verbatim>\<open>{"mounts":[{"type":"bind","source":"/home/user/data"}]}\<close>
  as the decoder gives it: the translator maps the source below the shared root, yet the
  libpod rewrite returns the body with the source as it was.
\<close>

theorem mangleLibpodVolumes_decoded_bind_kept:
  "translateHostPath (\<lambda>p. Inr (local_fs_prefix @ ''Ubuntu''))
     (NewPodmanProxy (getSharedMountpoint ''Ubuntu'') ''up.sock'' ''down.sock'')
     ''/home/user/data''
   = Inr ''/mnt/wsl/distro-roots/Ubuntu/home/user/data''
   \<and> mangleLibpodVolumes (\<lambda>p. Inr (local_fs_prefix @ ''Ubuntu''))
     (NewPodmanProxy (getSharedMountpoint ''Ubuntu'') ''up.sock'' ''down.sock'')
     [''mounts'' \<mapsto> GSlice [GMap [''type'' \<mapsto> GString ''bind'',
                                       ''source'' \<mapsto> GString ''/home/user/data'']]]
   = ([''mounts'' \<mapsto> GSlice [GMap [''type'' \<mapsto> GString ''bind'',
                                        ''source'' \<mapsto> GString ''/home/user/data'']]], None)"
  by (simp add: mangleLibpodVolumes_def eval_defs)

section \<open>Properties of the JavaScript libpod rewrite\<close>

text \<open>
  Claim C7 on the code. \<^verbatim>\<open>patchVolumesLibpod\<close> of \<^verbatim>\<open>index.mjs\<close> does not look at
  the type of a mount: in the body
  \<^verbatim>\<open>{"mounts":[{"type":"volume","source":"/mnt/c/data"}]}\<close> the source of the mount,
  whose type is not \<^verbatim>\<open>bind\<close>, is replaced by the Windows path that \<^verbatim>\<open>wslpath\<close>
  answers, whatever \<^verbatim>\<open>path.join\<close> is. (The Go function leaves such a mount alone:
  \<open>mangleLibpodVolumes_other_types\<close>.)
\<close>

theorem patchVolumesLibpod_volume_source_rewritten:
  "patchVolumesLibpod
     (js_translateHostPath (\<lambda>p. Inr (''C:'' @ [backslash] @ ''data'')) pathJoin
        ''/mnt/wsl/distro-roots/Ubuntu'')
     (JObject [(''mounts'', JArray [JObject [(''type'', JString ''volume''),
                                               (''source'', JString ''/mnt/c/data'')]])])
   = Inr (JObject [(''mounts'', JArray [JObject [(''type'', JString ''volume''),
             (''source'', JString (''C:'' @ [backslash] @ ''data''))]])])"
  by (simp add: patchVolumesLibpod_def js_get_def js_set_def js_translateHostPath_def
        local_fs_prefix_def backslash_def)

section \<open>Properties of the startup probe\<close>

text \<open>
  A failure to reach the upstream socket is returned, and \<^verbatim>\<open>main\<close> exits on it. A
  response with a status other than 200 is not: the function returns \<^verbatim>\<open>nil\<close> and
  \<^verbatim>\<open>main\<close> goes on to serve.
\<close>

lemma TestUpstreamSocket_dial_error:
  "TestUpstreamSocket (Inl err) = Some err \<and> main_startup (Inl err) = FatalExit err"
  by (simp add: TestUpstreamSocket_def main_startup_def)

lemma TestUpstreamSocket_not_ok:
  "StatusCode resp \<noteq> StatusOK \<Longrightarrow>
   TestUpstreamSocket (Inr resp) = None \<and> main_startup (Inr resp) = Serve"
  by (simp add: TestUpstreamSocket_def main_startup_def)

text \<open>
  Claim C3 on the code. The upstream answers the probe with status 500 (and its body closes
  without error): \<^verbatim>\<open>TestUpstreamSocket\<close> returns no error and the process serves.
\<close>

theorem TestUpstreamSocket_status_500:
  "TestUpstreamSocket (Inr \<lparr>StatusCode = 500, BodyClose = None\<rparr>) = None
   \<and> main_startup (Inr \<lparr>StatusCode = 500, BodyClose = None\<rparr>) = Serve"
  by (simp add: TestUpstreamSocket_def main_startup_def StatusOK_def)

section \<open>Properties of the raw byte forwarder\<close>

lemma forward_loop_running_append:
  "forward_loop before = Running \<Longrightarrow> forward_loop (before @ turns) = forward_loop turns"
  by (induction before) (auto split: option.splits)

text \<open>
  Claim C8. On a descriptor that \<^verbatim>\<open>select\<close> flagged, a read that fails with
  \<^verbatim>\<open>EAGAIN\<close> or \<^verbatim>\<open>EWOULDBLOCK\<close> makes \<^verbatim>\<open>forwardData\<close> return \<^verbatim>\<open>nil\<close>;
  a read that fails with any other error makes it return that error; and when bytes were
  read, a write that fails makes it return the error of the write. In a turn that the
  running loop reaches and in which \<^verbatim>\<open>select\<close> succeeds, \<^verbatim>\<open>ProxyFileConn\<close> returns
  the first error the two calls of \<^verbatim>\<open>forwardData\<close> return, whatever turns would
  follow, and if both return \<^verbatim>\<open>nil\<close> the loop goes on with the next turn.
\<close>

theorem forwarder_errors:
  "(would_block err \<longrightarrow>
      forwardData \<lparr>is_set = True, read_result = Inl err, write_result = w\<rparr> = None)
   \<and> (\<not> would_block err \<longrightarrow>
      forwardData \<lparr>is_set = True, read_result = Inl err, write_result = w\<rparr> = Some err)
   \<and> (0 < n \<longrightarrow>
      forwardData \<lparr>is_set = True, read_result = Inr n, write_result = Some err\<rparr> = Some err)
   \<and> (forward_loop before = Running \<and> select_result t = None \<longrightarrow>
      ProxyFileConn prepared (before @ t # after) =
        (case forwardData (side1 t) of
           Some e \<Rightarrow> Returned e
         | None \<Rightarrow>
             (case forwardData (side2 t) of
                Some e \<Rightarrow> Returned e
              | None \<Rightarrow> forward_loop after)))"
  by (simp add: forwardData_def ProxyFileConn_def prepared_def forward_loop_running_append)

theorem forwarder_errors_witness:
  "forwardData \<lparr>is_set = True, read_result = Inl EAGAIN, write_result = None\<rparr> = None
   \<and> forwardData \<lparr>is_set = True, read_result = Inl EOF, write_result = None\<rparr> = Some EOF
   \<and> forwardData \<lparr>is_set = True, read_result = Inr 5, write_result = Some (Errno 32)\<rparr>
       = Some (Errno 32)
   \<and> ProxyFileConn prepared
        ([example_turn (Inl EWOULDBLOCK) None] @ example_turn (Inr 5) (Some (Errno 32))
           # [example_turn (Inl EOF) None])
       = Returned (Errno 32)
   \<and> ProxyFileConn prepared
        ([example_turn (Inl EWOULDBLOCK) None] @ example_turn (Inl EAGAIN) None
           # [example_turn (Inl EOF) None])
       = Returned EOF"
  using forwarder_errors [of EAGAIN None 5 "[example_turn (Inl EWOULDBLOCK) None]"
          "example_turn (Inr 5) (Some (Errno 32))" "[example_turn (Inl EOF) None]"]
        forwarder_errors [of EOF None 5 "[example_turn (Inl EWOULDBLOCK) None]"
          "example_turn (Inl EAGAIN) None" "[example_turn (Inl EOF) None]"]
        forwarder_errors [of "Errno 32" None 5 "[]" "example_turn (Inl EAGAIN) None" "[]"]
  by (simp add: would_block_def EAGAIN_def EWOULDBLOCK_def example_turn_def forwardData_def)

section \<open>Properties of the connection counter\<close>









section \<open>Properties of the HTTP handler\<close>

text \<open>
  Claim C10. For a \<^verbatim>\<open>POST\<close> request whose path, the version prefix removed, is one of
  the two container-creation endpoints: the content-type guard forwards the request as it
  is exactly when the content type is neither empty nor \<^verbatim>\<open>application/json\<close>; and
  when the request has no \<^verbatim>\<open>Content-Type\<close> header, the handler takes the rewriting
  path, so that a body the decoder rejects is answered with status 400 and a body that is
  decoded, rewritten and encoded is forwarded as the new body with its length.
\<close>

theorem ServeHTTP_without_content_type:
  assumes "Method r = ''POST''"
    and "path = (if MatchString (URL_Path r) then ReplaceAllString (URL_Path r) ''/''
                 else URL_Path r)"
    and "path = ''/containers/create'' \<or> path = ''/libpod/containers/create''"
  shows "ServeHTTP Decode Marshal ToWindows p r =
       (if Header_Get (Header r) ''Content-Type'' \<noteq> ''application/json''
           \<and> Header_Get (Header r) ''Content-Type'' \<noteq> []
        then Forwarded r
        else intercept Decode Marshal ToWindows p path r)
    \<and> (Header r ''Content-Type'' = None \<longrightarrow>
        ServeHTTP Decode Marshal ToWindows p r = intercept Decode Marshal ToWindows p path r
        \<and> (\<forall>body err. Body_ReadAll r = Inr body \<and> Body_Close r = None \<and> Decode body = Inl err
              \<longrightarrow> ServeHTTP Decode Marshal ToWindows p r = HttpError StatusBadRequest err)
        \<and> (\<forall>body bodyObj bodyObj' newBody.
              Body_ReadAll r = Inr body \<and> Body_Close r = None \<and> Decode body = Inr bodyObj
              \<and> (if HasPrefix path ''/libpod'' then mangleLibpodVolumes ToWindows p bodyObj
                  else mangleDockerVolumes ToWindows p bodyObj) = (bodyObj', None)
              \<and> Marshal bodyObj' = Inr newBody
              \<longrightarrow> ServeHTTP Decode Marshal ToWindows p r =
                    Forwarded (r\<lparr>Body_ReadAll := Inr newBody, Body_Close := None,
                                 ContentLength := int (length newBody),
                                 Header := Header_Set (Header r) ''Content-Length''
                                             (FormatInt (length newBody))\<rparr>)))"
proof -
  have guard: "ServeHTTP Decode Marshal ToWindows p r =
       (if Header_Get (Header r) ''Content-Type'' \<noteq> ''application/json''
           \<and> Header_Get (Header r) ''Content-Type'' \<noteq> []
        then Forwarded r
        else intercept Decode Marshal ToWindows p path r)"
    using assms by (auto simp: ServeHTTP_def Let_def)
  have none: "Header r ''Content-Type'' = None \<Longrightarrow>
      ServeHTTP Decode Marshal ToWindows p r = intercept Decode Marshal ToWindows p path r"
    unfolding guard by (simp add: Header_Get_def)
  show ?thesis
  proof (intro conjI impI)
    show "ServeHTTP Decode Marshal ToWindows p r =
       (if Header_Get (Header r) ''Content-Type'' \<noteq> ''application/json''
           \<and> Header_Get (Header r) ''Content-Type'' \<noteq> []
        then Forwarded r
        else intercept Decode Marshal ToWindows p path r)"
      by (rule guard)
  qed (auto simp: none intercept_def)
qed

theorem ServeHTTP_without_content_type_witness:
  "ServeHTTP (\<lambda>b. Inl (DecodeError ''unexpected end of JSON input'')) (\<lambda>b. Inr ''{}'')
     (\<lambda>p. Inl (ExecError ''wslpath''))
     (NewPodmanProxy (getSharedMountpoint ''Ubuntu'') ''up.sock'' ''down.sock'')
     \<lparr>Method = ''POST'', URL_Path = ''/v1.41/containers/create'', Header = Map.empty,
      Body_ReadAll = Inr ''{'', Body_Close = None, ContentLength = 1\<rparr>
   = HttpError StatusBadRequest (DecodeError ''unexpected end of JSON input'')"
  using ServeHTTP_without_content_type
    [of "\<lparr>Method = ''POST'', URL_Path = ''/v1.41/containers/create'', Header = Map.empty,
          Body_ReadAll = Inr ''{'', Body_Close = None, ContentLength = 1\<rparr>"
        "''/containers/create''"
        "\<lambda>b. Inl (DecodeError ''unexpected end of JSON input'')" "\<lambda>b. Inr ''{}''"
        "\<lambda>p. Inl (ExecError ''wslpath'')"
        "NewPodmanProxy (getSharedMountpoint ''Ubuntu'') ''up.sock'' ''down.sock''"]
  by (simp add: MatchString_def ReplaceAllString_def versionRegex_match_def
        any_char_then_group_def rune_width_def is_digit_def slash_def dot_def intercept_def
        Header_Get_def)

end
